theory Spec2Isabelle
  imports Main
begin

section \<open>JavaScript values\<close>

text \<open>
  The values the adapter handles are what \<^verbatim>\<open>JSON.parse\<close> produces, plus \<^verbatim>\<open>undefined\<close>.
  An object is the list of its own properties in enumeration order. Numbers are carried as
  integers; no property below depends on a numeric value other than through truthiness and
  equality.
\<close>

datatype jsval =
    JUndefined
  | JNull
  | JBool bool
  | JNumber int
  | JString string
  | JArray "jsval list"
  | JObject "(string \<times> jsval) list"

type_synonym props = "(string \<times> jsval) list"

text \<open>JavaScript truthiness, as tested by \<^verbatim>\<open>!x\<close>, \<^verbatim>\<open>x || y\<close> and \<^verbatim>\<open>if (x)\<close>.\<close>

fun truthy :: "jsval \<Rightarrow> bool" where
  "truthy JUndefined = False"
| "truthy JNull = False"
| "truthy (JBool b) = b"
| "truthy (JNumber n) = (n \<noteq> 0)"
| "truthy (JString s) = (s \<noteq> [])"
| "truthy (JArray xs) = True"
| "truthy (JObject ps) = True"

text \<open>Reading an own property: \<^verbatim>\<open>undefined\<close> when the object has no such key.\<close>

fun lookup :: "props \<Rightarrow> string \<Rightarrow> jsval" where
  "lookup [] k = JUndefined"
| "lookup ((k', v) # ps) k = (if k' = k then v else lookup ps k)"

text \<open>
  The assignment \<^verbatim>\<open>obj[k] = v\<close>: an existing key keeps its place, a new key goes last.
\<close>

fun set_prop :: "(string \<times> 'a) list \<Rightarrow> string \<Rightarrow> 'a \<Rightarrow> (string \<times> 'a) list" where
  "set_prop [] k v = [(k, v)]"
| "set_prop ((k', v') # ps) k v =
     (if k' = k then (k, v) # ps else (k', v') # set_prop ps k v)"

text \<open>
  \<^verbatim>\<open>v?.k\<close> on a value that came from JSON: the own property of an object, and
  \<^verbatim>\<open>undefined\<close> on \<^verbatim>\<open>null\<close>, \<^verbatim>\<open>undefined\<close> and on primitives and arrays (none of the keys
  the adapter reads is an index or \<^verbatim>\<open>length\<close>).
\<close>

fun get_prop :: "jsval \<Rightarrow> string \<Rightarrow> jsval" where
  "get_prop (JObject ps) k = lookup ps k"
| "get_prop v k = JUndefined"

section \<open>Declared shapes (src/schema-utils.mjs)\<close>

text \<open>
  A field descriptor is a zod type object. The translator and the validator only look at its
  class, at \<^verbatim>\<open>_def\<close> and at \<^verbatim>\<open>description\<close>, so a descriptor is the class tag with the parts
  of \<^verbatim>\<open>_def\<close> that are read. A check of a string or number type is its \<^verbatim>\<open>kind\<close> and
  \<^verbatim>\<open>value\<close>. The array bounds \<^verbatim>\<open>_def.minLength\<close> and \<^verbatim>\<open>_def.maxLength\<close> are \<^verbatim>\<open>null\<close>
  (\<open>None\<close>) or an object with a \<^verbatim>\<open>value\<close>. \<open>ZodOther\<close> stands for every class the
  translator has no branch for.
\<close>

record check =
  kind :: string
  cvalue :: jsval

datatype zod =
    ZodString "check list" "string option"
  | ZodNumber "check list" "string option"
  | ZodBoolean "string option"
  | ZodEnum "string list" "string option"
  | ZodArray zod "jsval option" "jsval option" "string option"
  | ZodObject "(string \<times> zod) list" "string option"
  | ZodOptional zod "string option"
  | ZodDefault zod jsval "string option"
  | ZodOther "string option"

type_synonym shape = "(string \<times> zod) list"

fun description :: "zod \<Rightarrow> string option" where
  "description (ZodString cs d) = d"
| "description (ZodNumber cs d) = d"
| "description (ZodBoolean d) = d"
| "description (ZodEnum vs d) = d"
| "description (ZodArray t mn mx d) = d"
| "description (ZodObject sh d) = d"
| "description (ZodOptional t d) = d"
| "description (ZodDefault t v d) = d"
| "description (ZodOther d) = d"

fun isZodOptional :: "zod \<Rightarrow> bool" where
  "isZodOptional (ZodOptional t d) = True"
| "isZodOptional (ZodDefault t v d) = True"
| "isZodOptional z = False"

fun hasZodDefault :: "zod \<Rightarrow> bool" where
  "hasZodDefault (ZodDefault t v d) = True"
| "hasZodDefault z = False"

subsection \<open>Shape translator\<close>

text \<open>The body of the \<^verbatim>\<open>switch (check.kind)\<close> of the string branch, for one check.\<close>

definition string_check :: "props \<Rightarrow> check \<Rightarrow> props" where
  "string_check schema c =
     (if kind c = ''min'' then set_prop schema ''minLength'' (cvalue c)
      else if kind c = ''max'' then set_prop schema ''maxLength'' (cvalue c)
      else if kind c = ''email'' then set_prop schema ''format'' (JString ''email'')
      else if kind c = ''url'' then set_prop schema ''format'' (JString ''uri'')
      else if kind c = ''uuid'' then set_prop schema ''format'' (JString ''uuid'')
      else schema)"

text \<open>The body of the \<^verbatim>\<open>switch (check.kind)\<close> of the number branch, for one check.\<close>

definition number_check :: "props \<Rightarrow> check \<Rightarrow> props" where
  "number_check schema c =
     (if kind c = ''min'' then set_prop schema ''minimum'' (cvalue c)
      else if kind c = ''max'' then set_prop schema ''maximum'' (cvalue c)
      else if kind c = ''int'' then set_prop schema ''type'' (JString ''integer'')
      else schema)"

text \<open>
  \<^verbatim>\<open>if (zodType.description) schema.description = zodType.description\<close>: a description that
  is absent or empty is falsy.
\<close>

fun add_description :: "props \<Rightarrow> string option \<Rightarrow> props" where
  "add_description schema None = schema"
| "add_description schema (Some s) =
     (if s \<noteq> [] then set_prop schema ''description'' (JString s) else schema)"

text \<open>\<^verbatim>\<open>zodType.description || dflt\<close>.\<close>

fun description_or :: "string option \<Rightarrow> string \<Rightarrow> string" where
  "description_or None dflt = dflt"
| "description_or (Some s) dflt = (if s \<noteq> [] then s else dflt)"

text \<open>\<^verbatim>\<open>if (bound) schema[k] = bound.value\<close> of the array branch.\<close>

fun add_bound :: "props \<Rightarrow> string \<Rightarrow> jsval option \<Rightarrow> props" where
  "add_bound schema k None = schema"
| "add_bound schema k (Some v) = set_prop schema k v"

text \<open>
  \<open>convertZodTypeToJsonSchema\<close> and \<open>zodToJsonSchema\<close> return the properties of the
  schema object they build; \<open>zod_fields\<close> is the loop of \<open>zodToJsonSchema\<close> over
  \<^verbatim>\<open>Object.entries(zodSchema)\<close> with its two accumulators \<^verbatim>\<open>properties\<close> and
  \<^verbatim>\<open>required\<close>.
\<close>

fun convertZodTypeToJsonSchema :: "zod \<Rightarrow> props"
  and zodToJsonSchema :: "shape \<Rightarrow> props"
  and zod_fields :: "shape \<Rightarrow> props \<Rightarrow> jsval list \<Rightarrow> props \<times> jsval list"
where
  "convertZodTypeToJsonSchema (ZodOptional t d) = convertZodTypeToJsonSchema t"
| "convertZodTypeToJsonSchema (ZodDefault t v d) =
     set_prop (convertZodTypeToJsonSchema t) ''default'' v"
| "convertZodTypeToJsonSchema (ZodString cs d) =
     add_description (foldl string_check [(''type'', JString ''string'')] cs) d"
| "convertZodTypeToJsonSchema (ZodNumber cs d) =
     add_description (foldl number_check [(''type'', JString ''number'')] cs) d"
| "convertZodTypeToJsonSchema (ZodBoolean d) =
     add_description [(''type'', JString ''boolean'')] d"
| "convertZodTypeToJsonSchema (ZodEnum vs d) =
     add_description [(''type'', JString ''string''), (''enum'', JArray (map JString vs))] d"
| "convertZodTypeToJsonSchema (ZodArray t mn mx d) =
     add_description
       (add_bound
          (add_bound
             [(''type'', JString ''array''), (''items'', JObject (convertZodTypeToJsonSchema t))]
             ''minItems'' mn)
          ''maxItems'' mx)
       d"
| "convertZodTypeToJsonSchema (ZodObject sh d) = zodToJsonSchema sh"
| "convertZodTypeToJsonSchema (ZodOther d) =
     [(''type'', JString ''string''),
      (''description'', JString (description_or d ''Unknown type''))]"
| "zodToJsonSchema zodSchema =
     (case zod_fields zodSchema [] [] of (properties, required) \<Rightarrow>
        [(''type'', JString ''object''),
         (''properties'', JObject properties),
         (''required'', JArray required)])"
| "zod_fields [] properties required = (properties, required)"
| "zod_fields ((key, schema) # rest) properties required =
     zod_fields rest
       (set_prop properties key (JObject (convertZodTypeToJsonSchema schema)))
       (if \<not> isZodOptional schema then required @ [JString key] else required)"

subsection \<open>What the specification expects of the translator\<close>

text \<open>
  The supported field kinds of the specification (section 3 and property P1) and the
  JSON-Schema type it expects for each. \<open>kind_of\<close> reads the kind of a descriptor under its
  optional and default wrappers; \<open>wrappers\<close> counts those wrappers.
\<close>

datatype field_kind = KString | KNumber | KInteger | KBoolean | KEnum | KArray | KObject

fun json_type :: "field_kind \<Rightarrow> string" where
  "json_type KString = ''string''"
| "json_type KNumber = ''number''"
| "json_type KInteger = ''integer''"
| "json_type KBoolean = ''boolean''"
| "json_type KEnum = ''string''"
| "json_type KArray = ''array''"
| "json_type KObject = ''object''"

fun kind_of :: "zod \<Rightarrow> field_kind option" where
  "kind_of (ZodString cs d) = Some KString"
| "kind_of (ZodNumber cs d) = Some (if ''int'' \<in> set (map kind cs) then KInteger else KNumber)"
| "kind_of (ZodBoolean d) = Some KBoolean"
| "kind_of (ZodEnum vs d) = Some KEnum"
| "kind_of (ZodArray t mn mx d) = Some KArray"
| "kind_of (ZodObject sh d) = Some KObject"
| "kind_of (ZodOptional t d) = kind_of t"
| "kind_of (ZodDefault t v d) = kind_of t"
| "kind_of (ZodOther d) = None"

fun wrappers :: "zod \<Rightarrow> nat" where
  "wrappers (ZodOptional t d) = Suc (wrappers t)"
| "wrappers (ZodDefault t v d) = Suc (wrappers t)"
| "wrappers z = 0"

text \<open>The descriptor under the optional and default wrappers.\<close>

fun unwrap :: "zod \<Rightarrow> zod" where
  "unwrap (ZodOptional t d) = unwrap t"
| "unwrap (ZodDefault t v d) = unwrap t"
| "unwrap z = z"

text \<open>
  The recognised format tags of a string field, and the tag that decides: the last one among
  the field's checks.
\<close>

definition is_format_tag :: "string \<Rightarrow> bool" where
  "is_format_tag t = (t = ''email'' \<or> t = ''url'' \<or> t = ''uuid'')"

definition format_tags :: "check list \<Rightarrow> string list" where
  "format_tags cs = filter is_format_tag (map kind cs)"

section \<open>Strings\<close>

text \<open>\<^verbatim>\<open>s.includes(t)\<close>: \<open>t\<close> occurs in \<open>s\<close> as a contiguous substring.\<close>

fun starts_with :: "string \<Rightarrow> string \<Rightarrow> bool" where
  "starts_with s [] = True"
| "starts_with [] (c # cs) = False"
| "starts_with (x # xs) (c # cs) = (x = c \<and> starts_with xs cs)"

fun str_includes :: "string \<Rightarrow> string \<Rightarrow> bool" where
  "str_includes [] t = (t = [])"
| "str_includes (x # xs) t = (starts_with (x # xs) t \<or> str_includes xs t)"

text \<open>\<^verbatim>\<open>xs.join(sep)\<close> on an array of strings.\<close>

fun join :: "string \<Rightarrow> string list \<Rightarrow> string" where
  "join sep [] = []"
| "join sep [x] = x"
| "join sep (x # y # ys) = x @ sep @ join sep (y # ys)"

text \<open>Decimal digits of a number, as a template literal prints it.\<close>

fun show_nat :: "nat \<Rightarrow> string" where
  "show_nat n =
     (if n < 10 then [''0123456789'' ! n]
      else show_nat (n div 10) @ [''0123456789'' ! (n mod 10)])"

definition show_int :: "int \<Rightarrow> string" where
  "show_int i = (if i < 0 then CHR ''-'' # show_nat (nat (- i)) else show_nat (nat i))"

text \<open>
  The string a template literal \<^verbatim>\<open>`${v}`\<close> puts in for a value: an array is its elements
  joined by commas, with \<^verbatim>\<open>null\<close> and \<^verbatim>\<open>undefined\<close> elements left empty.
\<close>

fun js_string :: "jsval \<Rightarrow> string"
  and js_elems :: "jsval list \<Rightarrow> string list"
where
  "js_string JUndefined = ''undefined''"
| "js_string JNull = ''null''"
| "js_string (JBool b) = (if b then ''true'' else ''false'')"
| "js_string (JNumber n) = show_int n"
| "js_string (JString s) = s"
| "js_string (JArray xs) = join '','' (js_elems xs)"
| "js_string (JObject ps) = ''[object Object]''"
| "js_elems [] = []"
| "js_elems (x # xs) =
     (if x = JNull \<or> x = JUndefined then [] else js_string x) # js_elems xs"

section \<open>Exceptions\<close>

text \<open>
  A thrown value is an error object: its \<^verbatim>\<open>name\<close>, its \<^verbatim>\<open>message\<close> and, for a
  \<^verbatim>\<open>ZodError\<close>, its issues \<^verbatim>\<open>errors\<close> (\<open>None\<close> when the object has no such property).
  An issue is what \<open>validateWithZod\<close> puts in one: \<^verbatim>\<open>code\<close>, \<^verbatim>\<open>path\<close> and \<^verbatim>\<open>message\<close>.
\<close>

record issue =
  code :: string
  path :: "string list"
  issue_message :: string

record exn =
  err_name :: string
  message :: string
  errors :: "issue list option"

definition Error :: "string \<Rightarrow> exn" where
  "Error m = \<lparr>err_name = ''Error'', message = m, errors = None\<rparr>"

definition TypeError :: "string \<Rightarrow> exn" where
  "TypeError m = \<lparr>err_name = ''TypeError'', message = m, errors = None\<rparr>"

text \<open>The message of the TypeError raised by reading property \<open>k\<close> of \<^verbatim>\<open>null\<close> or \<^verbatim>\<open>undefined\<close>.\<close>

definition cannot_read :: "jsval \<Rightarrow> string \<Rightarrow> string" where
  "cannot_read v k =
     ''Cannot read properties of '' @ js_string v @ '' (reading '' @ [CHR 0x27] @ k @ [CHR 0x27] @ '')''"

text \<open>
  \<^verbatim>\<open>v[k]\<close>: a TypeError on \<^verbatim>\<open>null\<close> and \<^verbatim>\<open>undefined\<close>; on an array or a string the element at
  index \<open>k\<close> or the \<^verbatim>\<open>length\<close>; otherwise as \<open>get_prop\<close>. Keys that name a member of a
  built-in prototype are not modelled.
\<close>

fun index_prop :: "jsval \<Rightarrow> string \<Rightarrow> string + jsval" where
  "index_prop JUndefined k = Inl (cannot_read JUndefined k)"
| "index_prop JNull k = Inl (cannot_read JNull k)"
| "index_prop (JArray xs) k =
     Inr (if k = ''length'' then JNumber (int (length xs))
          else (case find (\<lambda>i. show_nat i = k) [0 ..< length xs] of
                  None \<Rightarrow> JUndefined | Some i \<Rightarrow> xs ! i))"
| "index_prop (JString s) k =
     Inr (if k = ''length'' then JNumber (int (length s))
          else (case find (\<lambda>i. show_nat i = k) [0 ..< length s] of
                  None \<Rightarrow> JUndefined | Some i \<Rightarrow> JString [s ! i]))"
| "index_prop v k = Inr (get_prop v k)"

section \<open>Argument validator (src/schema-utils.mjs)\<close>

text \<open>
  \<^verbatim>\<open>schema.parse\<close> belongs to the zod library. The validator takes it as the parameter
  \<open>parse\<close>: \<open>parse schema v\<close> is \<open>Inr r\<close> when \<^verbatim>\<open>schema.parse(v)\<close> returns \<open>r\<close> and
  \<open>Inl m\<close> when it throws an error with message \<open>m\<close>.
\<close>

type_synonym parser = "zod \<Rightarrow> jsval \<Rightarrow> string + jsval"

text \<open>
  The body of the \<^verbatim>\<open>try\<close> block for one field: \<open>Inl m\<close> when it throws, \<open>Inr None\<close> when
  the field is skipped, \<open>Inr (Some r)\<close> when \<^verbatim>\<open>validated[key] = r\<close> is executed.
\<close>

definition validate_field :: "parser \<Rightarrow> jsval \<Rightarrow> string \<Rightarrow> zod \<Rightarrow> string + jsval option" where
  "validate_field parse args key schema =
     (case index_prop args key of
        Inl m \<Rightarrow> Inl m
      | Inr a \<Rightarrow>
          if a = JUndefined \<and> isZodOptional schema then
            (if hasZodDefault schema then
               (case parse schema JUndefined of Inl m \<Rightarrow> Inl m | Inr r \<Rightarrow> Inr (Some r))
             else Inr None)
          else (case parse schema a of Inl m \<Rightarrow> Inl m | Inr r \<Rightarrow> Inr (Some r)))"

text \<open>The issue of the \<^verbatim>\<open>ZodError\<close> thrown in the \<^verbatim>\<open>catch\<close> block.\<close>

definition custom_issue :: "string \<Rightarrow> string \<Rightarrow> issue" where
  "custom_issue key m = \<lparr>code = ''custom'', path = [key], issue_message = m\<rparr>"

text \<open>
  The loop over \<^verbatim>\<open>Object.entries(zodSchema)\<close> with the accumulator \<^verbatim>\<open>validated\<close>. \<open>Inl\<close>
  holds the issues of the \<^verbatim>\<open>ZodError\<close> that is thrown.
\<close>

fun validate_fields :: "parser \<Rightarrow> jsval \<Rightarrow> shape \<Rightarrow> props \<Rightarrow> issue list + props" where
  "validate_fields parse args [] validated = Inr validated"
| "validate_fields parse args ((key, schema) # rest) validated =
     (case validate_field parse args key schema of
        Inl m \<Rightarrow> Inl [custom_issue key m]
      | Inr None \<Rightarrow> validate_fields parse args rest validated
      | Inr (Some r) \<Rightarrow> validate_fields parse args rest (set_prop validated key r))"

definition validateWithZod :: "parser \<Rightarrow> shape \<Rightarrow> jsval \<Rightarrow> issue list + props" where
  "validateWithZod parse zodSchema args = validate_fields parse args zodSchema []"

text \<open>
  A parser to run the validator on concrete inputs: the type test with which the library's
  \<^verbatim>\<open>parse\<close> starts, looking through the optional and default wrappers. It stands for the
  library only on descriptors of the classes the translator knows, without checks, bounds
  or nested fields; the messages are abbreviations of the library's.
\<close>

fun typeof_parse :: parser where
  "typeof_parse (ZodOptional t d) v = (if v = JUndefined then Inr JUndefined else typeof_parse t v)"
| "typeof_parse (ZodDefault t dv d) v = typeof_parse t (if v = JUndefined then dv else v)"
| "typeof_parse (ZodString cs d) v =
     (case v of JString s \<Rightarrow> Inr v | _ \<Rightarrow> Inl ''Expected string'')"
| "typeof_parse (ZodNumber cs d) v =
     (case v of JNumber n \<Rightarrow> Inr v | _ \<Rightarrow> Inl ''Expected number'')"
| "typeof_parse (ZodBoolean d) v =
     (case v of JBool b \<Rightarrow> Inr v | _ \<Rightarrow> Inl ''Expected boolean'')"
| "typeof_parse (ZodEnum vs d) v =
     (case v of JString s \<Rightarrow> if s \<in> set vs then Inr v else Inl ''Invalid enum value''
      | _ \<Rightarrow> Inl ''Invalid enum value'')"
| "typeof_parse (ZodArray t mn mx d) v =
     (case v of JArray xs \<Rightarrow> Inr v | _ \<Rightarrow> Inl ''Expected array'')"
| "typeof_parse (ZodObject sh d) v =
     (case v of JObject ps \<Rightarrow> Inr v | _ \<Rightarrow> Inl ''Expected object'')"
| "typeof_parse (ZodOther d) v = Inl ''Unsupported type''"

section \<open>Server core (MCPServer)\<close>

text \<open>
  A handler supplied by the user is a function object: its \<^verbatim>\<open>description\<close> property and
  what a call does, \<open>Inl\<close> for a thrown error and \<open>Inr\<close> for the value the awaited
  promise resolves to.
\<close>

record user_handler =
  handler_description :: jsval
  run :: "jsval \<Rightarrow> exn + jsval"

record tool_entry =
  tool_name :: string
  tool_description :: jsval
  inputSchema :: props
  tool_handler :: "jsval \<Rightarrow> exn + jsval"

record resource_entry =
  resource_name :: string
  uri :: string
  resource_description :: jsval
  resource_handler :: "jsval \<Rightarrow> exn + jsval"

record prompt_entry =
  prompt_name :: string
  prompt_description :: jsval
  arguments :: "jsval list"
  prompt_handler :: "jsval \<Rightarrow> exn + jsval"

text \<open>
  The three registries are JavaScript Maps keyed by name: the entries in insertion order.
  \<^verbatim>\<open>Map.set\<close> acts on the entries as \<open>set_prop\<close> does on properties; \<^verbatim>\<open>Map.get\<close> finds
  an entry only for a key that is the same string.
\<close>

record server =
  config :: props
  tools :: "(string \<times> tool_entry) list"
  resources :: "(string \<times> resource_entry) list"
  prompts :: "(string \<times> prompt_entry) list"

fun map_get :: "(string \<times> 'a) list \<Rightarrow> jsval \<Rightarrow> 'a option" where
  "map_get m (JString n) = map_of m n"
| "map_get m v = None"

text \<open>\<^verbatim>\<open>a || b\<close>.\<close>

definition or_else :: "jsval \<Rightarrow> jsval \<Rightarrow> jsval" where
  "or_else a b = (if truthy a then a else b)"

text \<open>The constructor: the four defaults, then the spread \<^verbatim>\<open>...config\<close> over them.\<close>

definition MCPServer :: "props \<Rightarrow> server" where
  "MCPServer cfg =
     \<lparr>config =
        foldl (\<lambda>acc (k, v). set_prop acc k v)
          [(''name'', or_else (lookup cfg ''name'') (JString ''MCP Server'')),
           (''version'', or_else (lookup cfg ''version'') (JString ''1.0.0'')),
           (''description'',
              or_else (lookup cfg ''description'') (JString ''MCP Server powered by AWS Lambda'')),
           (''protocolVersion'', or_else (lookup cfg ''protocolVersion'') (JString ''2025-03-26''))]
          cfg,
      tools = [], resources = [], prompts = []\<rparr>"

text \<open>
  The error the \<^verbatim>\<open>catch\<close> block of a validating handler throws for a \<^verbatim>\<open>ZodError\<close> with
  the given issues.
\<close>

definition validation_error :: "issue list \<Rightarrow> exn" where
  "validation_error es =
     Error (''Validation error: '' @
            join '', '' (map (\<lambda>e. join ''.'' (path e) @ '': '' @ issue_message e) es))"

text \<open>The \<^verbatim>\<open>catch\<close> block of a validating handler, for an error thrown by the user's handler.\<close>

definition handler_catch :: "exn \<Rightarrow> exn" where
  "handler_catch error =
     (if err_name error = ''ZodError'' then
        (case errors error of
           None \<Rightarrow> TypeError (cannot_read JUndefined ''map'')
         | Some es \<Rightarrow> validation_error es)
      else error)"

text \<open>
  The wrapper \<^verbatim>\<open>validatedHandler\<close> that \<^verbatim>\<open>tool\<close> and \<^verbatim>\<open>prompt\<close> store. The error
  \<open>validateWithZod\<close> throws is a \<^verbatim>\<open>ZodError\<close> carrying its issues, so the \<^verbatim>\<open>catch\<close> block
  turns it into a validation error.
\<close>

definition validatedHandler :: "parser \<Rightarrow> shape \<Rightarrow> user_handler \<Rightarrow> jsval \<Rightarrow> exn + jsval" where
  "validatedHandler parse schema handler args =
     (case validateWithZod parse schema args of
        Inl es \<Rightarrow> Inl (validation_error es)
      | Inr validatedArgs \<Rightarrow>
          (case run handler (JObject validatedArgs) of
             Inl error \<Rightarrow> Inl (handler_catch error)
           | Inr result \<Rightarrow> Inr result))"

definition tool :: "parser \<Rightarrow> server \<Rightarrow> string \<Rightarrow> shape \<Rightarrow> user_handler \<Rightarrow> server" where
  "tool parse srv name schema handler =
     srv\<lparr>tools :=
       set_prop (tools srv) name
         \<lparr>tool_name = name,
          tool_description = or_else (handler_description handler) (JString (''Tool: '' @ name)),
          inputSchema = zodToJsonSchema schema,
          tool_handler = validatedHandler parse schema handler\<rparr>\<rparr>"

definition resource :: "server \<Rightarrow> string \<Rightarrow> string \<Rightarrow> user_handler \<Rightarrow> server" where
  "resource srv name u handler =
     srv\<lparr>resources :=
       set_prop (resources srv) name
         \<lparr>resource_name = name,
          uri = u,
          resource_description =
            or_else (handler_description handler) (JString (''Resource: '' @ name)),
          resource_handler = run handler\<rparr>\<rparr>"

definition prompt_argument :: "string \<times> zod \<Rightarrow> jsval" where
  "prompt_argument e =
     (case e of (key, schema) \<Rightarrow>
        JObject
          [(''name'', JString key),
           (''description'', JString (description_or (description schema) (key @ '' parameter''))),
           (''required'', JBool (\<not> isZodOptional schema))])"

definition prompt :: "parser \<Rightarrow> server \<Rightarrow> string \<Rightarrow> shape \<Rightarrow> user_handler \<Rightarrow> server" where
  "prompt parse srv name schema handler =
     srv\<lparr>prompts :=
       set_prop (prompts srv) name
         \<lparr>prompt_name = name,
          prompt_description =
            or_else (handler_description handler) (JString (''Prompt: '' @ name)),
          arguments = map prompt_argument schema,
          prompt_handler = validatedHandler parse schema handler\<rparr>\<rparr>"

definition handleInitialize :: "server \<Rightarrow> jsval" where
  "handleInitialize srv =
     JObject
       [(''protocolVersion'', lookup (config srv) ''protocolVersion''),
        (''capabilities'',
           JObject
             [(''tools'', JObject [(''listChanged'', JBool True)]),
              (''resources'', JObject [(''listChanged'', JBool True)]),
              (''prompts'', JObject [(''listChanged'', JBool True)])]),
        (''serverInfo'',
           JObject
             [(''name'', lookup (config srv) ''name''),
              (''version'', lookup (config srv) ''version'')]),
        (''instructions'', lookup (config srv) ''description'')]"

definition handleToolsList :: "server \<Rightarrow> jsval" where
  "handleToolsList srv =
     JObject
       [(''tools'',
           JArray
             (map (\<lambda>t. JObject
                     [(''name'', JString (tool_name t)),
                      (''description'', tool_description t),
                      (''inputSchema'', JObject (inputSchema t))])
                (map snd (tools srv))))]"

text \<open>The result the \<^verbatim>\<open>catch\<close> block of \<open>handleToolsCall\<close> returns.\<close>

definition error_result :: "exn \<Rightarrow> jsval" where
  "error_result error =
     JObject
       [(''content'',
           JArray [JObject [(''type'', JString ''text''),
                            (''text'', JString (''Error: '' @ message error))]]),
        (''isError'', JBool True)]"

definition handleToolsCall :: "server \<Rightarrow> jsval \<Rightarrow> exn + jsval" where
  "handleToolsCall srv params =
     (if \<not> truthy (get_prop params ''name'') then Inl (Error ''Tool name is required'')
      else
        (case map_get (tools srv) (get_prop params ''name'') of
           None \<Rightarrow> Inl (Error (''Tool not found: '' @ js_string (get_prop params ''name'')))
         | Some t \<Rightarrow>
             (case tool_handler t (or_else (get_prop params ''arguments'') (JObject [])) of
                Inr result \<Rightarrow> Inr result
              | Inl error \<Rightarrow> Inr (error_result error))))"

definition handleResourcesList :: "server \<Rightarrow> jsval" where
  "handleResourcesList srv =
     JObject
       [(''resources'',
           JArray
             (map (\<lambda>r. JObject
                     [(''uri'', JString (uri r)),
                      (''name'', JString (resource_name r)),
                      (''description'', resource_description r)])
                (map snd (resources srv))))]"

definition handleResourcesRead :: "server \<Rightarrow> jsval \<Rightarrow> exn + jsval" where
  "handleResourcesRead srv params =
     (if \<not> truthy (get_prop params ''uri'') then Inl (Error ''Resource URI is required'')
      else
        (case find (\<lambda>r. JString (uri r) = get_prop params ''uri'') (map snd (resources srv)) of
           None \<Rightarrow> Inl (Error (''Resource not found: '' @ js_string (get_prop params ''uri'')))
         | Some r \<Rightarrow>
             (case resource_handler r (get_prop params ''uri'') of
                Inr result \<Rightarrow> Inr result
              | Inl error \<Rightarrow> Inl (Error (''Resource read error: '' @ message error)))))"

definition handlePromptsList :: "server \<Rightarrow> jsval" where
  "handlePromptsList srv =
     JObject
       [(''prompts'',
           JArray
             (map (\<lambda>p. JObject
                     [(''name'', JString (prompt_name p)),
                      (''description'', prompt_description p),
                      (''arguments'', JArray (arguments p))])
                (map snd (prompts srv))))]"

definition handlePromptsGet :: "server \<Rightarrow> jsval \<Rightarrow> exn + jsval" where
  "handlePromptsGet srv params =
     (if \<not> truthy (get_prop params ''name'') then Inl (Error ''Prompt name is required'')
      else
        (case map_get (prompts srv) (get_prop params ''name'') of
           None \<Rightarrow> Inl (Error (''Prompt not found: '' @ js_string (get_prop params ''name'')))
         | Some p \<Rightarrow>
             (case prompt_handler p (or_else (get_prop params ''arguments'') (JObject [])) of
                Inr result \<Rightarrow> Inr result
              | Inl error \<Rightarrow> Inl (Error (''Prompt execution error: '' @ message error)))))"

text \<open>
  The dispatcher. \<open>Inl\<close> is a thrown error (a rejected promise), \<open>Inr\<close> the value returned;
  \<^verbatim>\<open>null\<close> is returned for the initialized notification. Reading \<^verbatim>\<open>request.method\<close> of
  \<^verbatim>\<open>null\<close> or \<^verbatim>\<open>undefined\<close> is a TypeError.
\<close>

definition handleRequest :: "server \<Rightarrow> jsval \<Rightarrow> exn + jsval" where
  "handleRequest srv request =
     (if request = JNull \<or> request = JUndefined then
        Inl (TypeError (cannot_read request ''method''))
      else
        let method = get_prop request ''method''; params = get_prop request ''params'' in
        if method = JString ''initialize'' then Inr (handleInitialize srv)
        else if method = JString ''notifications/initialized'' then Inr JNull
        else if method = JString ''tools/list'' then Inr (handleToolsList srv)
        else if method = JString ''tools/call'' then handleToolsCall srv params
        else if method = JString ''resources/list'' then Inr (handleResourcesList srv)
        else if method = JString ''resources/read'' then handleResourcesRead srv params
        else if method = JString ''prompts/list'' then Inr (handlePromptsList srv)
        else if method = JString ''prompts/get'' then handlePromptsGet srv params
        else Inl (Error (''Method not found: '' @ js_string method)))"

section \<open>Transport boundary (src/lambda-adapter.mjs)\<close>

text \<open>
  A response body is a string: either given as one, or \<^verbatim>\<open>JSON.stringify\<close> of a value,
  kept here as that value.
\<close>

datatype body = Text string | Json jsval

record response =
  statusCode :: int
  headers :: "(string \<times> string) list"
  body :: body

definition createResponse :: "jsval \<Rightarrow> int \<Rightarrow> (string \<times> string) list \<Rightarrow> response" where
  "createResponse b status hs =
     \<lparr>statusCode = status,
      headers = foldl (\<lambda>acc (k, v). set_prop acc k v) [(''Content-Type'', ''application/json'')] hs,
      body = (case b of JString s \<Rightarrow> Text s | _ \<Rightarrow> Json b)\<rparr>"

text \<open>The parameter \<^verbatim>\<open>id\<close> defaults to \<^verbatim>\<open>null\<close> when it is \<^verbatim>\<open>undefined\<close>.\<close>

definition createErrorResponse ::
  "int \<Rightarrow> int \<Rightarrow> string \<Rightarrow> (string \<times> string) list \<Rightarrow> jsval \<Rightarrow> response" where
  "createErrorResponse status c m hs i =
     createResponse
       (JObject
          [(''jsonrpc'', JString ''2.0''),
           (''error'', JObject [(''code'', JNumber c), (''message'', JString m)]),
           (''id'', if i = JUndefined then JNull else i)])
       status hs"

text \<open>\<^verbatim>\<open>headers['content-type'] || headers['Content-Type'] || ''\<close>.\<close>

definition content_type :: "(string \<times> string) list \<Rightarrow> string" where
  "content_type hs =
     (case map_of hs ''content-type'' of
        Some s \<Rightarrow> if s \<noteq> [] then s
                  else (case map_of hs ''Content-Type'' of Some s' \<Rightarrow> s' | None \<Rightarrow> [])
      | None \<Rightarrow> (case map_of hs ''Content-Type'' of Some s' \<Rightarrow> s' | None \<Rightarrow> []))"

text \<open>The error code chosen in the \<^verbatim>\<open>catch\<close> block of \<open>handleMCPRequest\<close>.\<close>

definition errorCode :: "string \<Rightarrow> int" where
  "errorCode m =
     (if str_includes m ''Method not found'' then - 32601
      else if str_includes m ''not found'' \<or> str_includes m ''required'' then - 32602
      else - 32603)"

text \<open>\<^verbatim>\<open>body || '{}'\<close>, where the body is \<open>None\<close> when the event has none.\<close>

definition body_text :: "string option \<Rightarrow> string" where
  "body_text b = (case b of None \<Rightarrow> ''{}'' | Some s \<Rightarrow> if s \<noteq> [] then s else ''{}'')"

text \<open>
  \<open>handleMCPRequest\<close>. \<^verbatim>\<open>JSON.parse\<close> is the parameter \<open>parseJSON\<close> (\<open>None\<close> when it
  throws). Reading \<^verbatim>\<open>jsonrpc\<close> of a message that is \<^verbatim>\<open>null\<close> is a TypeError outside any
  \<^verbatim>\<open>try\<close>, so it leaves the function (\<open>Inl\<close>).
\<close>

definition handleMCPRequest ::
  "(string \<Rightarrow> jsval option) \<Rightarrow> server \<Rightarrow> string option \<Rightarrow> (string \<times> string) list \<Rightarrow>
   (string \<times> string) list \<Rightarrow> exn + response" where
  "handleMCPRequest parseJSON mcpServer b hs corsHeaders =
     (if \<not> str_includes (content_type hs) ''application/json'' then
        Inr (createErrorResponse 400 (- 32700)
               ''Parse error: Content-Type must be application/json'' corsHeaders JUndefined)
      else
        (case parseJSON (body_text b) of
           None \<Rightarrow>
             Inr (createErrorResponse 400 (- 32700) ''Parse error: Invalid JSON'' corsHeaders
                    JUndefined)
         | Some jsonRpcMessage \<Rightarrow>
             if jsonRpcMessage = JNull \<or> jsonRpcMessage = JUndefined then
               Inl (TypeError (cannot_read jsonRpcMessage ''jsonrpc''))
             else if get_prop jsonRpcMessage ''jsonrpc'' \<noteq> JString ''2.0'' then
               Inr (createErrorResponse 400 (- 32600) ''Invalid Request: missing jsonrpc field''
                      corsHeaders (get_prop jsonRpcMessage ''id''))
             else if \<not> truthy (get_prop jsonRpcMessage ''method'') then
               Inr (createErrorResponse 400 (- 32600) ''Invalid Request: missing method field''
                      corsHeaders (get_prop jsonRpcMessage ''id''))
             else
               (case handleRequest mcpServer jsonRpcMessage of
                  Inr result \<Rightarrow>
                    if result = JNull then Inr (createResponse (JString []) 204 corsHeaders)
                    else
                      Inr (createResponse
                             (JObject
                                [(''jsonrpc'', JString ''2.0''),
                                 (''result'', result),
                                 (''id'', get_prop jsonRpcMessage ''id'')])
                             200 corsHeaders)
                | Inl error \<Rightarrow>
                    Inr (createErrorResponse 500 (errorCode (message error)) (message error)
                           corsHeaders (get_prop jsonRpcMessage ''id'')))))"

text \<open>Reading a response: the error code and the result of its JSON body.\<close>

definition response_error_code :: "response \<Rightarrow> jsval" where
  "response_error_code r =
     (case body r of Json v \<Rightarrow> get_prop (get_prop v ''error'') ''code'' | Text s \<Rightarrow> JUndefined)"

definition response_result :: "response \<Rightarrow> jsval" where
  "response_result r =
     (case body r of Json v \<Rightarrow> get_prop v ''result'' | Text s \<Rightarrow> JUndefined)"

text \<open>
  A request reaches the dispatcher when it passes the checks \<open>handleMCPRequest\<close> makes
  before it calls \<open>handleRequest\<close>: a JSON content type, a body that parses, the protocol
  tag \<^verbatim>\<open>2.0\<close> and a method that is not falsy.
\<close>

definition reaches_dispatcher ::
  "(string \<Rightarrow> jsval option) \<Rightarrow> string option \<Rightarrow> (string \<times> string) list \<Rightarrow> jsval \<Rightarrow> bool" where
  "reaches_dispatcher parseJSON b hs request =
     (str_includes (content_type hs) ''application/json''
      \<and> parseJSON (body_text b) = Some request
      \<and> get_prop request ''jsonrpc'' = JString ''2.0''
      \<and> truthy (get_prop request ''method''))"

subsection \<open>What the specification says of the dispatcher\<close>


text \<open>
  The allow-list of protocol versions. \<open>MCPServer.handleInitialize\<close> has none; this is the
  list \<^verbatim>\<open>supportedVersions\<close> in \<^verbatim>\<open>handleInitialize\<close> of the ES-module bundle dist/index.mjs,
  the only one in the repository.
\<close>

definition supportedVersions :: "string list" where
  "supportedVersions = [''2024-11-05'', ''2025-03-26'']"

subsection \<open>Sample requests and handlers\<close>

definition rpc_request :: "string \<Rightarrow> jsval \<Rightarrow> jsval" where
  "rpc_request m params =
     JObject [(''jsonrpc'', JString ''2.0''), (''id'', JNumber 1), (''method'', JString m),
              (''params'', params)]"

definition json_headers :: "(string \<times> string) list" where
  "json_headers = [(''Content-Type'', ''application/json'')]"

text \<open>A user handler that throws \<^verbatim>\<open>new Error(m)\<close> on every call.\<close>

definition failing_handler :: "string \<Rightarrow> user_handler" where
  "failing_handler m = \<lparr>handler_description = JUndefined, run = (\<lambda>x. Inl (Error m))\<rparr>"

subsection \<open>What the specification says of the validator and the string formats\<close>

text \<open>A field fails when the body of its \<^verbatim>\<open>try\<close> block throws.\<close>

definition field_fails :: "parser \<Rightarrow> jsval \<Rightarrow> string \<times> zod \<Rightarrow> bool" where
  "field_fails parse args f =
     (case validate_field parse args (fst f) (snd f) of Inl m \<Rightarrow> True | Inr r \<Rightarrow> False)"

text \<open>The JSON-Schema name of a recognised format tag.\<close>

definition json_format :: "string \<Rightarrow> string" where
  "json_format t = (if t = ''url'' then ''uri'' else t)"

section \<open>Properties of the translator\<close>

lemma lookup_set_prop: "lookup (set_prop ps k v) k' = (if k = k' then v else lookup ps k')"
  by (induction ps) auto

lemma lookup_add_description:
  "k \<noteq> ''description'' \<Longrightarrow> lookup (add_description ps d) k = lookup ps k"
  by (cases d) (auto simp: lookup_set_prop)

lemma lookup_add_bound: "k \<noteq> b \<Longrightarrow> lookup (add_bound ps b v) k = lookup ps k"
  by (cases v) (auto simp: lookup_set_prop)

lemma type_string_checks:
  "lookup (foldl string_check ps cs) ''type'' = lookup ps ''type''"
  by (induction cs arbitrary: ps) (auto simp: string_check_def lookup_set_prop)

lemma type_number_checks:
  "lookup (foldl number_check ps cs) ''type'' =
     (if ''int'' \<in> set (map kind cs) then JString ''integer'' else lookup ps ''type'')"
  by (induction cs arbitrary: ps) (auto simp: number_check_def lookup_set_prop)

lemma convert_type:
  "kind_of f = Some k \<Longrightarrow>
   lookup (convertZodTypeToJsonSchema f) ''type'' = JString (json_type k)"
proof (induction f arbitrary: k)
  case (ZodString cs d)
  then show ?case by (auto simp: lookup_add_description type_string_checks)
next
  case (ZodNumber cs d)
  then show ?case by (auto simp: lookup_add_description type_number_checks)
next
  case (ZodArray t mn mx d)
  then show ?case by (auto simp: lookup_add_description lookup_add_bound)
qed (auto simp: lookup_add_description lookup_set_prop split: prod.splits)

lemma wrappers_isZodOptional: "(wrappers f = 0) = (\<not> isZodOptional f)"
  by (cases f) auto

text \<open>
  C6. For every field of a supported kind, translating the shape whose only field it is gives
  a description whose property for the field has the JSON-Schema type of the kind, and whose
  required list holds the field's name exactly when the field has no optional and no default
  wrapper.
\<close>

theorem translate_single_field:
  assumes "kind_of f = Some k"
  shows "get_prop (get_prop (get_prop (JObject (zodToJsonSchema [(key, f)])) ''properties'') key)
           ''type'' = JString (json_type k)
       \<and> get_prop (JObject (zodToJsonSchema [(key, f)])) ''required''
           = JArray (if wrappers f = 0 then [JString key] else [])"
  using assms by (simp add: convert_type wrappers_isZodOptional)

theorem translate_single_field_witness:
  "kind_of (ZodDefault (ZodNumber [\<lparr>kind = ''int'', cvalue = JUndefined\<rparr>] None) (JNumber 42) None)
     = Some KInteger
   \<and> get_prop (get_prop (get_prop (JObject (zodToJsonSchema
        [(''n'', ZodDefault (ZodNumber [\<lparr>kind = ''int'', cvalue = JUndefined\<rparr>] None)
                  (JNumber 42) None)])) ''properties'') ''n'') ''type'' = JString ''integer''
   \<and> get_prop (JObject (zodToJsonSchema
        [(''n'', ZodDefault (ZodNumber [\<lparr>kind = ''int'', cvalue = JUndefined\<rparr>] None)
                  (JNumber 42) None)])) ''required'' = JArray []"
  using translate_single_field
    [of "ZodDefault (ZodNumber [\<lparr>kind = ''int'', cvalue = JUndefined\<rparr>] None) (JNumber 42) None"
        KInteger "''n''"]
  by simp

section \<open>Properties of the validator\<close>

lemma keys_set_prop: "fst ` set (set_prop ps k v) = insert k (fst ` set ps)"
  by (induction ps) force+

lemma lookup_absent: "k \<notin> fst ` set ps \<Longrightarrow> lookup ps k = JUndefined"
  by (induction ps) auto

lemma validate_fields_keys_upper:
  "validate_fields parse args sh acc = Inr out \<Longrightarrow>
   fst ` set out \<subseteq> fst ` set acc \<union> fst ` set sh"
proof (induction sh arbitrary: acc)
  case Nil
  then show ?case by simp
next
  case (Cons f sh)
  obtain key schema where f: "f = (key, schema)" by (cases f)
  show ?case
  proof (cases "validate_field parse args key schema")
    case (Inl m)
    with Cons.prems f show ?thesis by simp
  next
    case (Inr r)
    show ?thesis
    proof (cases r)
      case None
      with Cons.prems f Inr have "validate_fields parse args sh acc = Inr out" by simp
      from Cons.IH [OF this] f show ?thesis by auto
    next
      case (Some v)
      with Cons.prems f Inr
      have "validate_fields parse args sh (set_prop acc key v) = Inr out" by simp
      from Cons.IH [OF this] f show ?thesis by (auto simp: keys_set_prop)
    qed
  qed
qed

lemma validate_fields_keys_acc:
  "validate_fields parse args sh acc = Inr out \<Longrightarrow> fst ` set acc \<subseteq> fst ` set out"
proof (induction sh arbitrary: acc)
  case Nil
  then show ?case by simp
next
  case (Cons f sh)
  obtain key schema where f: "f = (key, schema)" by (cases f)
  show ?case
  proof (cases "validate_field parse args key schema")
    case (Inl m)
    with Cons.prems f show ?thesis by simp
  next
    case (Inr r)
    show ?thesis
    proof (cases r)
      case None
      with Cons.prems f Inr have "validate_fields parse args sh acc = Inr out" by simp
      from Cons.IH [OF this] show ?thesis .
    next
      case (Some v)
      with Cons.prems f Inr
      have "validate_fields parse args sh (set_prop acc key v) = Inr out" by simp
      from Cons.IH [OF this] show ?thesis by (auto simp: keys_set_prop)
    qed
  qed
qed

lemma present_field_not_skipped:
  "index_prop args key \<noteq> Inr JUndefined \<Longrightarrow> validate_field parse args key schema \<noteq> Inr None"
  by (auto simp: validate_field_def split: sum.splits)

lemma validate_fields_keys_lower:
  "validate_fields parse args sh acc = Inr out \<Longrightarrow>
   \<forall>f \<in> set sh. index_prop args (fst f) \<noteq> Inr JUndefined \<Longrightarrow>
   fst ` set sh \<subseteq> fst ` set out"
proof (induction sh arbitrary: acc)
  case Nil
  then show ?case by simp
next
  case (Cons f sh)
  obtain key schema where f: "f = (key, schema)" by (cases f)
  from Cons.prems(2) f have present: "index_prop args key \<noteq> Inr JUndefined" by simp
  from Cons.prems(2) have rest: "\<forall>f \<in> set sh. index_prop args (fst f) \<noteq> Inr JUndefined" by simp
  show ?case
  proof (cases "validate_field parse args key schema")
    case (Inl m)
    with Cons.prems f show ?thesis by simp
  next
    case (Inr r)
    with present_field_not_skipped [OF present, of parse schema]
    obtain v where r: "r = Some v" by (cases r) auto
    with Cons.prems(1) f Inr
    have run: "validate_fields parse args sh (set_prop acc key v) = Inr out" by simp
    from validate_fields_keys_acc [OF run] have "key \<in> fst ` set out"
      by (auto simp: keys_set_prop)
    with Cons.IH [OF run rest] f show ?thesis by simp
  qed
qed

text \<open>
  C5. When validation succeeds, every key of the validated mapping is a key the shape
  declares, so a key the shape does not declare reads as \<^verbatim>\<open>undefined\<close> in it; and when every
  declared field is present in the arguments, the keys of the validated mapping are exactly
  the declared ones.
\<close>

theorem validated_only_declared:
  assumes "validateWithZod parse sh args = Inr validated"
  shows "fst ` set validated \<subseteq> fst ` set sh
       \<and> (\<forall>k. k \<notin> fst ` set sh \<longrightarrow> lookup validated k = JUndefined)
       \<and> ((\<forall>f \<in> set sh. index_prop args (fst f) \<noteq> Inr JUndefined) \<longrightarrow>
            fst ` set validated = fst ` set sh)"
proof -
  from assms have run: "validate_fields parse args sh [] = Inr validated"
    by (simp add: validateWithZod_def)
  from validate_fields_keys_upper [OF run] have upper: "fst ` set validated \<subseteq> fst ` set sh"
    by simp
  then have "\<forall>k. k \<notin> fst ` set sh \<longrightarrow> lookup validated k = JUndefined"
    by (auto intro: lookup_absent)
  moreover have "(\<forall>f \<in> set sh. index_prop args (fst f) \<noteq> Inr JUndefined) \<longrightarrow>
      fst ` set validated = fst ` set sh"
    using validate_fields_keys_lower [OF run] upper by blast
  ultimately show ?thesis using upper by blast
qed

theorem validated_only_declared_witness:
  "validateWithZod typeof_parse [(''a'', ZodNumber [] None), (''b'', ZodNumber [] None)]
     (JObject [(''a'', JNumber 1), (''b'', JNumber 2), (''c'', JNumber 3)])
     = Inr [(''a'', JNumber 1), (''b'', JNumber 2)]
   \<and> fst ` set [(''a'', JNumber 1), (''b'', JNumber 2)]
     = fst ` set [(''a'', ZodNumber [] None), (''b'', ZodNumber [] None)]
   \<and> lookup [(''a'', JNumber 1), (''b'', JNumber 2)] ''c'' = JUndefined"
proof -
  have run: "validateWithZod typeof_parse [(''a'', ZodNumber [] None), (''b'', ZodNumber [] None)]
     (JObject [(''a'', JNumber 1), (''b'', JNumber 2), (''c'', JNumber 3)])
     = Inr [(''a'', JNumber 1), (''b'', JNumber 2)]"
    by (simp add: validateWithZod_def validate_field_def)
  from validated_only_declared [OF run] run show ?thesis by simp
qed

lemma validate_fields_first_failure:
  "case find (field_fails parse args) sh of
     None \<Rightarrow> (\<exists>v. validate_fields parse args sh acc = Inr v)
   | Some f \<Rightarrow> (\<exists>m. validate_field parse args (fst f) (snd f) = Inl m
                  \<and> validate_fields parse args sh acc = Inl [custom_issue (fst f) m])"
proof (induction sh arbitrary: acc)
  case Nil
  then show ?case by simp
next
  case (Cons f sh)
  obtain key schema where f: "f = (key, schema)" by (cases f)
  show ?case
  proof (cases "validate_field parse args key schema")
    case (Inl m)
    with f show ?thesis by (simp add: field_fails_def)
  next
    case (Inr r)
    then have nofail: "\<not> field_fails parse args f" using f by (simp add: field_fails_def)
    show ?thesis
    proof (cases r)
      case None
      with Inr f nofail Cons.IH [of acc] show ?thesis
        by (auto split: option.splits)
    next
      case (Some v)
      with Inr f nofail Cons.IH [of "set_prop acc key v"] show ?thesis
        by (auto split: option.splits)
    qed
  qed
qed

text \<open>
  C8 (as amended). Validation stops at the first field, in iteration order, whose check
  fails: the failure then holds exactly one entry, with that field as its path and that
  field's message, whatever the fields after it would do. When no field fails, validation
  succeeds.
\<close>

theorem validate_reports_first_failure_only:
  "case find (field_fails parse args) sh of
     None \<Rightarrow> (\<exists>v. validateWithZod parse sh args = Inr v)
   | Some f \<Rightarrow> (\<exists>m. validate_field parse args (fst f) (snd f) = Inl m
                  \<and> validateWithZod parse sh args = Inl [custom_issue (fst f) m])"
  unfolding validateWithZod_def by (rule validate_fields_first_failure)

text \<open>
  C8, counterexample. Both fields of the shape violate their constraint, each on its own;
  validation fails and its failure holds one entry, with the path of the first field.
\<close>

theorem validate_aggregates_counterexample:
  "field_fails typeof_parse (JObject [(''a'', JNumber 1), (''b'', JNumber 2)])
     (''a'', ZodString [] None)
   \<and> field_fails typeof_parse (JObject [(''a'', JNumber 1), (''b'', JNumber 2)])
     (''b'', ZodString [] None)
   \<and> isl (validateWithZod typeof_parse
            [(''a'', ZodString [] None), (''b'', ZodString [] None)]
            (JObject [(''a'', JNumber 1), (''b'', JNumber 2)]))
   \<and> map path (projl (validateWithZod typeof_parse
            [(''a'', ZodString [] None), (''b'', ZodString [] None)]
            (JObject [(''a'', JNumber 1), (''b'', JNumber 2)])))
     = [[''a'']]"
  by (simp add: validateWithZod_def validate_field_def field_fails_def custom_issue_def)


theorem validate_reports_first_failure_only_witness:
  "\<exists>m. validate_field typeof_parse (JObject [(''a'', JNumber 1), (''b'', JNumber 2)]) ''a''
             (ZodString [] None) = Inl m
       \<and> validateWithZod typeof_parse [(''a'', ZodString [] None), (''b'', ZodString [] None)]
             (JObject [(''a'', JNumber 1), (''b'', JNumber 2)])
           = Inl [custom_issue ''a'' m]"
  using validate_reports_first_failure_only
    [where parse = typeof_parse
       and args = "JObject [(''a'', JNumber 1), (''b'', JNumber 2)]"
       and sh = "[(''a'', ZodString [] None), (''b'', ZodString [] None)]"]
  by (simp add: field_fails_def validate_field_def)

section \<open>String formats\<close>

lemma format_string_checks:
  "lookup (foldl string_check ps cs) ''format'' =
     (if format_tags cs = [] then lookup ps ''format''
      else JString (json_format (last (format_tags cs))))"
proof (induction cs arbitrary: ps)
  case Nil
  then show ?case by (simp add: format_tags_def)
next
  case (Cons c cs)
  have step: "lookup (string_check ps c) ''format'' =
      (if is_format_tag (kind c) then JString (json_format (kind c)) else lookup ps ''format'')"
    by (auto simp: string_check_def is_format_tag_def json_format_def lookup_set_prop)
  have tags: "format_tags (c # cs) =
      (if is_format_tag (kind c) then kind c # format_tags cs else format_tags cs)"
    by (simp add: format_tags_def)
  show ?case
    using Cons.IH [of "string_check ps c"] step tags by simp
qed

lemma convert_format_unwrap:
  "lookup (convertZodTypeToJsonSchema f) ''format'' =
   lookup (convertZodTypeToJsonSchema (unwrap f)) ''format''"
  by (induction f) (auto simp: lookup_set_prop)

text \<open>
  C7 (as amended). For every string field with a recognised format tag among its checks,
  under any optional and default wrappers, the translated description carries the format of
  the last such tag: \<^verbatim>\<open>email\<close> for email, \<^verbatim>\<open>uuid\<close> for uuid and \<^verbatim>\<open>uri\<close> for url.
\<close>

theorem string_format_translated:
  assumes "unwrap f = ZodString cs d" and "format_tags cs \<noteq> []"
  shows "lookup (convertZodTypeToJsonSchema f) ''format''
           = JString (json_format (last (format_tags cs)))
       \<and> json_format ''email'' = ''email'' \<and> json_format ''uuid'' = ''uuid''
       \<and> json_format ''url'' = ''uri''"
proof -
  have "lookup (convertZodTypeToJsonSchema f) ''format''
      = lookup (convertZodTypeToJsonSchema (ZodString cs d)) ''format''"
    using assms(1) convert_format_unwrap [of f] by simp
  also have "\<dots> = JString (json_format (last (format_tags cs)))"
    using assms(2) by (simp add: lookup_add_description format_string_checks)
  finally show ?thesis by (simp add: json_format_def)
qed

theorem string_format_translated_witness:
  "unwrap (ZodOptional (ZodString [\<lparr>kind = ''min'', cvalue = JNumber 1\<rparr>,
                                   \<lparr>kind = ''url'', cvalue = JUndefined\<rparr>] None) None)
     = ZodString [\<lparr>kind = ''min'', cvalue = JNumber 1\<rparr>, \<lparr>kind = ''url'', cvalue = JUndefined\<rparr>] None
   \<and> format_tags [\<lparr>kind = ''min'', cvalue = JNumber 1\<rparr>, \<lparr>kind = ''url'', cvalue = JUndefined\<rparr>]
     = [''url'']
   \<and> lookup (convertZodTypeToJsonSchema
        (ZodOptional (ZodString [\<lparr>kind = ''min'', cvalue = JNumber 1\<rparr>,
                                 \<lparr>kind = ''url'', cvalue = JUndefined\<rparr>] None) None)) ''format''
     = JString ''uri''"
proof -
  have u: "unwrap (ZodOptional (ZodString [\<lparr>kind = ''min'', cvalue = JNumber 1\<rparr>,
                                   \<lparr>kind = ''url'', cvalue = JUndefined\<rparr>] None) None)
     = ZodString [\<lparr>kind = ''min'', cvalue = JNumber 1\<rparr>, \<lparr>kind = ''url'', cvalue = JUndefined\<rparr>] None"
    by simp
  have t: "format_tags [\<lparr>kind = ''min'', cvalue = JNumber 1\<rparr>, \<lparr>kind = ''url'', cvalue = JUndefined\<rparr>]
     = [''url'']"
    by (simp add: format_tags_def is_format_tag_def)
  then have ne: "format_tags [\<lparr>kind = ''min'', cvalue = JNumber 1\<rparr>,
      \<lparr>kind = ''url'', cvalue = JUndefined\<rparr>] \<noteq> []"
    by simp
  from string_format_translated [OF u ne] u t show ?thesis
    by (simp add: json_format_def)
qed

text \<open>
  C7, counterexample. A string field tagged \<^verbatim>\<open>url\<close> is translated with the format
  \<^verbatim>\<open>uri\<close>, not \<^verbatim>\<open>url\<close>.
\<close>

theorem url_format_counterexample:
  "lookup (convertZodTypeToJsonSchema (ZodString [\<lparr>kind = ''url'', cvalue = JUndefined\<rparr>] None))
     ''format'' = JString ''uri''
   \<and> lookup (convertZodTypeToJsonSchema (ZodString [\<lparr>kind = ''url'', cvalue = JUndefined\<rparr>] None))
     ''format'' \<noteq> JString ''url''"
  by (simp add: string_check_def)


section \<open>Properties of the dispatcher and the transport boundary\<close>




text \<open>What \<open>handleMCPRequest\<close> answers to a request that reaches the dispatcher.\<close>

lemma transport_dispatch:
  assumes "reaches_dispatcher parseJSON b hs request"
  shows "handleMCPRequest parseJSON srv b hs cors =
     Inr (case handleRequest srv request of
            Inr result \<Rightarrow>
              if result = JNull then createResponse (JString []) 204 cors
              else createResponse
                     (JObject [(''jsonrpc'', JString ''2.0''), (''result'', result),
                               (''id'', get_prop request ''id'')])
                     200 cors
          | Inl error \<Rightarrow>
              createErrorResponse 500 (errorCode (message error)) (message error) cors
                (get_prop request ''id''))"
proof -
  from assms have ct: "str_includes (content_type hs) ''application/json''"
    and parsed: "parseJSON (body_text b) = Some request"
    and tag: "get_prop request ''jsonrpc'' = JString ''2.0''"
    and meth: "truthy (get_prop request ''method'')"
    by (simp_all add: reaches_dispatcher_def)
  from tag have "request \<noteq> JNull" and "request \<noteq> JUndefined" by auto
  with ct parsed tag meth show ?thesis
    by (simp add: handleMCPRequest_def split: sum.splits)
qed

lemma response_error_code_error:
  "response_error_code (createErrorResponse status c m hs i) = JNumber c"
  by (simp add: response_error_code_def createErrorResponse_def createResponse_def)

lemma statusCode_error: "statusCode (createErrorResponse status c m hs i) = status"
  by (simp add: createErrorResponse_def createResponse_def)

text \<open>
  C1. For every tool in the registry whose name a tools/call request supplies (the name
  passes the presence test \<^verbatim>\<open>!params?.name\<close> of the handler and \<^verbatim>\<open>Map.get\<close> finds the tool), if
  the tool's stored handler throws, \<open>handleRequest\<close> returns a result with
  \<^verbatim>\<open>isError: true\<close> and the error's message in its content; nothing is thrown, and the
  transport answers 200 with that result and no error envelope.
\<close>

theorem tool_fault_isolated:
  assumes "get_prop request ''method'' = JString ''tools/call''"
    and "truthy (get_prop (get_prop request ''params'') ''name'')"
    and "map_get (tools srv) (get_prop (get_prop request ''params'') ''name'') = Some t"
    and "tool_handler t (or_else (get_prop (get_prop request ''params'') ''arguments'')
           (JObject [])) = Inl e"
  shows "handleRequest srv request = Inr (error_result e)
       \<and> get_prop (error_result e) ''isError'' = JBool True
       \<and> get_prop (error_result e) ''content''
           = JArray [JObject [(''type'', JString ''text''),
                              (''text'', JString (''Error: '' @ message e))]]
       \<and> (reaches_dispatcher parseJSON b hs request \<longrightarrow>
            handleMCPRequest parseJSON srv b hs cors
              = Inr (createResponse
                       (JObject [(''jsonrpc'', JString ''2.0''), (''result'', error_result e),
                                 (''id'', get_prop request ''id'')])
                       200 cors))"
proof -
  from assms(1) have nn: "request \<noteq> JNull" "request \<noteq> JUndefined" by auto
  have call: "handleToolsCall srv (get_prop request ''params'') = Inr (error_result e)"
    using assms(2-4) by (simp add: handleToolsCall_def)
  have req: "handleRequest srv request = Inr (error_result e)"
    using assms(1) nn call by (simp add: handleRequest_def)
  have notnull: "error_result e \<noteq> JNull" by (simp add: error_result_def)
  have "reaches_dispatcher parseJSON b hs request \<longrightarrow>
        handleMCPRequest parseJSON srv b hs cors
          = Inr (createResponse
                   (JObject [(''jsonrpc'', JString ''2.0''), (''result'', error_result e),
                             (''id'', get_prop request ''id'')])
                   200 cors)"
    using transport_dispatch [of parseJSON b hs request srv cors] req notnull by simp
  with req show ?thesis by (simp add: error_result_def)
qed

theorem tool_fault_isolated_witness:
  "handleRequest (tool typeof_parse (MCPServer []) ''boom'' [] (failing_handler ''kaput''))
     (rpc_request ''tools/call'' (JObject [(''name'', JString ''boom'')]))
   = Inr (JObject
       [(''content'', JArray [JObject [(''type'', JString ''text''),
                                       (''text'', JString ''Error: kaput'')]]),
        (''isError'', JBool True)])"
proof -
  let ?srv = "tool typeof_parse (MCPServer []) ''boom'' [] (failing_handler ''kaput'')"
  let ?req = "rpc_request ''tools/call'' (JObject [(''name'', JString ''boom'')])"
  let ?t = "\<lparr>tool_name = ''boom'',
      tool_description = or_else (handler_description (failing_handler ''kaput''))
        (JString (''Tool: '' @ ''boom'')),
      inputSchema = zodToJsonSchema [],
      tool_handler = validatedHandler typeof_parse [] (failing_handler ''kaput'')\<rparr>"
  have m: "get_prop ?req ''method'' = JString ''tools/call''"
    by (simp add: rpc_request_def)
  have n: "truthy (get_prop (get_prop ?req ''params'') ''name'')"
    by (simp add: rpc_request_def)
  have reg: "map_get (tools ?srv) (get_prop (get_prop ?req ''params'') ''name'') = Some ?t"
    by (simp add: rpc_request_def tool_def MCPServer_def)
  have throws: "tool_handler ?t (or_else (get_prop (get_prop ?req ''params'') ''arguments'')
      (JObject [])) = Inl (Error ''kaput'')"
    by (simp add: rpc_request_def or_else_def validatedHandler_def validateWithZod_def
        failing_handler_def handler_catch_def Error_def)
  from tool_fault_isolated [OF m n reg throws]
  show ?thesis by (simp add: error_result_def Error_def)
qed

text \<open>
  C2. For every resources/read request: a missing uri (one that fails the presence test
  \<^verbatim>\<open>!params?.uri\<close> of the handler) is a thrown error; a uri that matches no registered data
  source is a thrown error; and when the uri matches a data source whose handler throws,
  \<open>handleRequest\<close> throws a read error carrying the handler's message. Whenever the
  handler of the matching data source throws, \<open>handleRequest\<close> throws and returns no
  result, and the transport answers each thrown error with an error envelope.
\<close>

theorem resource_read_faults_thrown:
  assumes "get_prop request ''method'' = JString ''resources/read''"
  shows "(\<not> truthy (get_prop (get_prop request ''params'') ''uri'') \<longrightarrow>
            handleRequest srv request = Inl (Error ''Resource URI is required''))
       \<and> (truthy (get_prop (get_prop request ''params'') ''uri'')
          \<and> find (\<lambda>r. JString (uri r) = get_prop (get_prop request ''params'') ''uri'')
               (map snd (resources srv)) = None \<longrightarrow>
            handleRequest srv request
              = Inl (Error (''Resource not found: ''
                            @ js_string (get_prop (get_prop request ''params'') ''uri''))))
       \<and> (truthy (get_prop (get_prop request ''params'') ''uri'')
          \<and> find (\<lambda>r. JString (uri r) = get_prop (get_prop request ''params'') ''uri'')
               (map snd (resources srv)) = Some r
          \<and> resource_handler r (get_prop (get_prop request ''params'') ''uri'') = Inl e \<longrightarrow>
            handleRequest srv request = Inl (Error (''Resource read error: '' @ message e)))
       \<and> (find (\<lambda>r. JString (uri r) = get_prop (get_prop request ''params'') ''uri'')
               (map snd (resources srv)) = Some r
          \<and> resource_handler r (get_prop (get_prop request ''params'') ''uri'') = Inl e \<longrightarrow>
            (\<exists>x. handleRequest srv request = Inl x))
       \<and> (\<forall>x. handleRequest srv request = Inl x
               \<and> reaches_dispatcher parseJSON b hs request \<longrightarrow>
            handleMCPRequest parseJSON srv b hs cors
              = Inr (createErrorResponse 500 (errorCode (message x)) (message x) cors
                       (get_prop request ''id'')))"
proof -
  from assms have nn: "request \<noteq> JNull" "request \<noteq> JUndefined" by auto
  have req: "handleRequest srv request = handleResourcesRead srv (get_prop request ''params'')"
    using assms nn by (simp add: handleRequest_def)
  have transport: "\<forall>x. handleRequest srv request = Inl x
               \<and> reaches_dispatcher parseJSON b hs request \<longrightarrow>
            handleMCPRequest parseJSON srv b hs cors
              = Inr (createErrorResponse 500 (errorCode (message x)) (message x) cors
                       (get_prop request ''id''))"
    using transport_dispatch [of parseJSON b hs request srv cors] by auto
  show ?thesis
    unfolding req using transport [unfolded req]
    by (simp add: handleResourcesRead_def)
qed

theorem resource_read_faults_thrown_witness:
  "handleRequest (resource (MCPServer []) ''db'' ''db://rows'' (failing_handler ''disk failure''))
     (rpc_request ''resources/read'' (JObject [(''uri'', JString ''db://rows'')]))
   = Inl (Error ''Resource read error: disk failure'')
   \<and> handleMCPRequest
       (\<lambda>s. Some (rpc_request ''resources/read'' (JObject [(''uri'', JString ''db://rows'')])))
       (resource (MCPServer []) ''db'' ''db://rows'' (failing_handler ''disk failure''))
       None json_headers []
   = Inr (createErrorResponse 500 (- 32603) ''Resource read error: disk failure'' []
            (JNumber 1))"
proof -
  let ?srv = "resource (MCPServer []) ''db'' ''db://rows'' (failing_handler ''disk failure'')"
  let ?req = "rpc_request ''resources/read'' (JObject [(''uri'', JString ''db://rows'')])"
  let ?r = "\<lparr>resource_name = ''db'', uri = ''db://rows'',
      resource_description = or_else (handler_description (failing_handler ''disk failure''))
        (JString (''Resource: '' @ ''db'')),
      resource_handler = run (failing_handler ''disk failure'')\<rparr>"
  have m: "get_prop ?req ''method'' = JString ''resources/read''"
    by (simp add: rpc_request_def)
  have u: "get_prop (get_prop ?req ''params'') ''uri'' = JString ''db://rows''"
    by (simp add: rpc_request_def)
  have found: "find (\<lambda>r. JString (uri r) = JString ''db://rows'') (map snd (resources ?srv))
      = Some ?r"
    by (simp add: resource_def MCPServer_def)
  have throws: "resource_handler ?r (JString ''db://rows'') = Inl (Error ''disk failure'')"
    by (simp add: failing_handler_def)
  have reach: "reaches_dispatcher (\<lambda>s. Some ?req) None json_headers ?req"
    by (simp add: reaches_dispatcher_def json_headers_def content_type_def rpc_request_def)
  have msg: "message (Error ''disk failure'') = ''disk failure''"
    by (simp add: Error_def)
  have code: "errorCode ''Resource read error: disk failure'' = - 32603"
    by (simp add: errorCode_def)
  have idv: "get_prop ?req ''id'' = JNumber 1"
    by (simp add: rpc_request_def)
  from resource_read_faults_thrown [OF m, of ?srv ?r "Error ''disk failure''" "\<lambda>s. Some ?req"
      None json_headers "[]"]
  show ?thesis
    unfolding u using found throws reach msg code idv
    by (simp add: Error_def)
qed


text \<open>
  C3 (as amended). For every initialize request, whatever protocol version the client asks
  for, \<open>handleRequest\<close> returns a result whose \<^verbatim>\<open>protocolVersion\<close> is the one in the server's
  configuration; the handshake is never rejected.
\<close>

theorem initialize_returns_configured_version:
  assumes "get_prop request ''method'' = JString ''initialize''"
  shows "\<exists>r. handleRequest srv request = Inr r
           \<and> get_prop r ''protocolVersion'' = lookup (config srv) ''protocolVersion''"
proof -
  from assms have "request \<noteq> JNull" and "request \<noteq> JUndefined" by auto
  with assms have "handleRequest srv request = Inr (handleInitialize srv)"
    by (simp add: handleRequest_def)
  then show ?thesis by (simp add: handleInitialize_def)
qed

theorem initialize_returns_configured_version_witness:
  "\<exists>r. handleRequest (MCPServer [(''protocolVersion'', JString ''2025-06-18'')])
          (rpc_request ''initialize'' (JObject [(''protocolVersion'', JString ''2024-11-05'')]))
        = Inr r
      \<and> get_prop r ''protocolVersion'' = JString ''2025-06-18''"
proof -
  have m: "get_prop (rpc_request ''initialize''
      (JObject [(''protocolVersion'', JString ''2024-11-05'')])) ''method'' = JString ''initialize''"
    by (simp add: rpc_request_def)
  have c: "lookup (config (MCPServer [(''protocolVersion'', JString ''2025-06-18'')]))
      ''protocolVersion'' = JString ''2025-06-18''"
    by (simp add: MCPServer_def or_else_def)
  from initialize_returns_configured_version [OF m,
      of "MCPServer [(''protocolVersion'', JString ''2025-06-18'')]"] c
  show ?thesis by simp
qed

text \<open>
  C3, counterexample. A server with the default configuration is asked for version
  2024-11-05, a member of the allow-list; it answers with its default 2025-03-26.
\<close>

theorem version_negotiation_counterexample:
  "''2024-11-05'' \<in> set supportedVersions
   \<and> handleRequest (MCPServer [])
       (rpc_request ''initialize'' (JObject [(''protocolVersion'', JString ''2024-11-05'')]))
     = Inr (handleInitialize (MCPServer []))
   \<and> get_prop (handleInitialize (MCPServer [])) ''protocolVersion'' = JString ''2025-03-26''
   \<and> get_prop (handleInitialize (MCPServer [])) ''protocolVersion'' \<noteq> JString ''2024-11-05''"
  by (simp add: supportedVersions_def handleRequest_def rpc_request_def handleInitialize_def
      MCPServer_def or_else_def)

text \<open>
  C4 (as amended). For every initialize request, the capabilities object of the result
  advertises all three registries, tools, resources and prompts, each with
  \<^verbatim>\<open>listChanged: true\<close>, whether or not the registry has an entry.
\<close>

theorem initialize_advertises_all_capabilities:
  assumes "get_prop request ''method'' = JString ''initialize''"
  shows "\<exists>r. handleRequest srv request = Inr r
           \<and> get_prop r ''capabilities''
               = JObject [(''tools'', JObject [(''listChanged'', JBool True)]),
                          (''resources'', JObject [(''listChanged'', JBool True)]),
                          (''prompts'', JObject [(''listChanged'', JBool True)])]"
proof -
  from assms have "request \<noteq> JNull" and "request \<noteq> JUndefined" by auto
  with assms have "handleRequest srv request = Inr (handleInitialize srv)"
    by (simp add: handleRequest_def)
  then show ?thesis by (simp add: handleInitialize_def)
qed

theorem initialize_advertises_all_capabilities_witness:
  "\<exists>r. handleRequest (tool typeof_parse (MCPServer []) ''boom'' [] (failing_handler ''kaput''))
          (rpc_request ''initialize'' (JObject []))
        = Inr r
      \<and> get_prop r ''capabilities''
          = JObject [(''tools'', JObject [(''listChanged'', JBool True)]),
                     (''resources'', JObject [(''listChanged'', JBool True)]),
                     (''prompts'', JObject [(''listChanged'', JBool True)])]"
proof -
  have m: "get_prop (rpc_request ''initialize'' (JObject [])) ''method'' = JString ''initialize''"
    by (simp add: rpc_request_def)
  from initialize_advertises_all_capabilities [OF m] show ?thesis .
qed

text \<open>
  C4, counterexample. A server whose three registries are empty still advertises the tools
  capability (and the other two) in its answer to initialize.
\<close>

theorem capabilities_counterexample:
  "tools (MCPServer []) = [] \<and> resources (MCPServer []) = [] \<and> prompts (MCPServer []) = []
   \<and> handleRequest (MCPServer []) (rpc_request ''initialize'' (JObject []))
     = Inr (handleInitialize (MCPServer []))
   \<and> get_prop (get_prop (handleInitialize (MCPServer [])) ''capabilities'') ''tools''
     = JObject [(''listChanged'', JBool True)]"
  by (simp add: handleRequest_def rpc_request_def handleInitialize_def MCPServer_def)




text \<open>
  C10. When the dispatcher throws for a request that reached it, the transport answers with
  HTTP status 500 and an error code chosen by substring tests on the message alone: -32601
  when it contains \<^verbatim>\<open>Method not found\<close>, otherwise -32602 when it contains \<^verbatim>\<open>not found\<close> or
  \<^verbatim>\<open>required\<close>, otherwise -32603. So a resources/read request whose handler throws
  \<^verbatim>\<open>id is required\<close>, and a prompts/get request whose handler throws \<^verbatim>\<open>user not found\<close>, are
  answered with -32602.
\<close>

theorem error_code_from_message:
  assumes "reaches_dispatcher parseJSON b hs request"
    and "handleRequest srv request = Inl e"
  shows "(\<exists>resp. handleMCPRequest parseJSON srv b hs cors = Inr resp
            \<and> statusCode resp = 500
            \<and> response_error_code resp
                = JNumber (if str_includes (message e) ''Method not found'' then - 32601
                           else if str_includes (message e) ''not found''
                                   \<or> str_includes (message e) ''required'' then - 32602
                           else - 32603))
       \<and> handleMCPRequest
           (\<lambda>s. Some (rpc_request ''resources/read'' (JObject [(''uri'', JString ''db://rows'')])))
           (resource (MCPServer []) ''db'' ''db://rows'' (failing_handler ''id is required''))
           None json_headers []
         = Inr (createErrorResponse 500 (- 32602) ''Resource read error: id is required'' []
                  (JNumber 1))
       \<and> handleMCPRequest
           (\<lambda>s. Some (rpc_request ''prompts/get'' (JObject [(''name'', JString ''greet'')])))
           (prompt typeof_parse (MCPServer []) ''greet'' [] (failing_handler ''user not found''))
           None json_headers []
         = Inr (createErrorResponse 500 (- 32602) ''Prompt execution error: user not found'' []
                  (JNumber 1))"
proof -
  have general: "\<exists>resp. handleMCPRequest parseJSON srv b hs cors = Inr resp
            \<and> statusCode resp = 500
            \<and> response_error_code resp
                = JNumber (if str_includes (message e) ''Method not found'' then - 32601
                           else if str_includes (message e) ''not found''
                                   \<or> str_includes (message e) ''required'' then - 32602
                           else - 32603)"
    using transport_dispatch [OF assms(1), of srv cors] assms(2)
    by (simp add: response_error_code_error statusCode_error errorCode_def)
  have res: "handleMCPRequest
           (\<lambda>s. Some (rpc_request ''resources/read'' (JObject [(''uri'', JString ''db://rows'')])))
           (resource (MCPServer []) ''db'' ''db://rows'' (failing_handler ''id is required''))
           None json_headers []
         = Inr (createErrorResponse 500 (- 32602) ''Resource read error: id is required'' []
                  (JNumber 1))"
    by (simp add: handleMCPRequest_def handleRequest_def handleResourcesRead_def
        rpc_request_def json_headers_def content_type_def body_text_def resource_def
        MCPServer_def failing_handler_def Error_def errorCode_def)
  have pr: "handleMCPRequest
           (\<lambda>s. Some (rpc_request ''prompts/get'' (JObject [(''name'', JString ''greet'')])))
           (prompt typeof_parse (MCPServer []) ''greet'' [] (failing_handler ''user not found''))
           None json_headers []
         = Inr (createErrorResponse 500 (- 32602) ''Prompt execution error: user not found'' []
                  (JNumber 1))"
    by (simp add: handleMCPRequest_def handleRequest_def handlePromptsGet_def
        rpc_request_def json_headers_def content_type_def body_text_def prompt_def
        MCPServer_def failing_handler_def Error_def errorCode_def or_else_def
        validatedHandler_def validateWithZod_def handler_catch_def)
  from general res pr show ?thesis by simp
qed

theorem error_code_from_message_witness:
  "\<exists>resp. handleMCPRequest
       (\<lambda>s. Some (rpc_request ''resources/read'' (JObject [(''uri'', JString ''db://rows'')])))
       (resource (MCPServer []) ''db'' ''db://rows'' (failing_handler ''no such row''))
       None json_headers [] = Inr resp
     \<and> statusCode resp = 500
     \<and> response_error_code resp = JNumber (- 32603)"
proof -
  let ?srv = "resource (MCPServer []) ''db'' ''db://rows'' (failing_handler ''no such row'')"
  let ?req = "rpc_request ''resources/read'' (JObject [(''uri'', JString ''db://rows'')])"
  have reach: "reaches_dispatcher (\<lambda>s. Some ?req) None json_headers ?req"
    by (simp add: reaches_dispatcher_def json_headers_def content_type_def rpc_request_def
        body_text_def)
  have thrown: "handleRequest ?srv ?req = Inl (Error ''Resource read error: no such row'')"
    by (simp add: handleRequest_def handleResourcesRead_def rpc_request_def resource_def
        MCPServer_def failing_handler_def Error_def)
  have code: "(if str_includes ''Resource read error: no such row'' ''Method not found''
                 then - 32601
               else if str_includes ''Resource read error: no such row'' ''not found''
                       \<or> str_includes ''Resource read error: no such row'' ''required''
                    then - 32602
               else - 32603) = (- 32603 :: int)"
    by simp
  from error_code_from_message [OF reach thrown, of "[]"] code
  show ?thesis by (simp add: Error_def)
qed


end
